theory Spec2Isabelle
  imports Main
begin

section \<open>The environment module of the coffee-shop frontend\<close>

text \<open>
  The module \<^verbatim>\<open>frontend/src/environments/environment.ts\<close> consists of one statement,
  \<^verbatim>\<open>export const environment = { production: false, apiServerUrl: '...', auth0: { ... } };\<close>
  TypeScript infers for the literal the object type
  \<^verbatim>\<open>{ production: boolean; apiServerUrl: string; auth0: { url: string; audience: string;
  clientId: string; callbackURL: string } }\<close>, which the two records below mirror field by
  field, under the names of the source.
\<close>

subsection \<open>Data model\<close>

record Auth0Config =
  url :: string
  audience :: string
  clientId :: string
  callbackURL :: string

record EnvironmentConfig =
  production :: bool
  apiServerUrl :: string
  auth0 :: Auth0Config

text \<open>The object literal of the source, every field a literal.\<close>

definition environment :: EnvironmentConfig where
  "environment =
     \<lparr> production = False,
       apiServerUrl = ''http://127.0.0.1:5000'',
       auth0 = \<lparr> url = ''mikilade.us'',
                 audience = ''https://csfsauth'',
                 clientId = ''334zMeab2pYsTnt0cl8HImUCh0Zln5JX'',
                 callbackURL = ''http://localhost:8100'' \<rparr> \<rparr>"

text \<open>
  The module's export list: one named export and no default export. Each exported
  configuration record is a deployment variant that the artifact defines.
\<close>

definition module_exports :: "(string \<times> EnvironmentConfig) list" where
  "module_exports = [(''environment'', environment)]"

definition variants :: "EnvironmentConfig list" where
  "variants = map snd module_exports"

text \<open>The string fields of a configuration, in the order of the source.\<close>

definition string_fields :: "EnvironmentConfig \<Rightarrow> (string \<times> string) list" where
  "string_fields c =
     [(''apiServerUrl'', apiServerUrl c),
      (''auth0.url'', url (auth0 c)),
      (''auth0.audience'', audience (auth0 c)),
      (''auth0.clientId'', clientId (auth0 c)),
      (''auth0.callbackURL'', callbackURL (auth0 c))]"

subsection \<open>The module at run time\<close>

text \<open>
  An object is a reference into the heap. Evaluating the module body allocates the object
  literal and initialises the \<^verbatim>\<open>const\<close> binding with its reference. The module body
  takes the literal as it stands in the file; \<open>load\<close> is the evaluation for an arbitrary
  literal, \<open>load_module\<close> the one for the literal of the source.
\<close>

type_synonym ref = nat

record runtime =
  binding :: ref
  heap :: "ref \<rightharpoonup> EnvironmentConfig"

definition load :: "EnvironmentConfig \<Rightarrow> runtime" where
  "load c = \<lparr> binding = 0, heap = [0 \<mapsto> c] \<rparr>"

definition load_module :: runtime where
  "load_module = load environment"

text \<open>
  What an importing component can do with the export. It can read the binding (the
  \<open>get()\<close> of the specification). It can assign to a property of the object: the
  properties are plain writable ones, the literal is neither frozen nor declared
  \<^verbatim>\<open>as const\<close> or \<^verbatim>\<open>readonly\<close>. It cannot rebind \<^verbatim>\<open>environment\<close>: the binding is
  \<^verbatim>\<open>const\<close>, and an assignment to it raises a TypeError and changes nothing.
\<close>

datatype field_update =
    SetProduction bool
  | SetApiServerUrl string
  | SetAuth0 Auth0Config
  | SetAuth0Url string
  | SetAudience string
  | SetClientId string
  | SetCallbackURL string

datatype operation = Get | Assign field_update | Rebind ref

datatype error = TypeError

datatype outcome = Value ref | Done | Failed error

fun apply_update :: "field_update \<Rightarrow> EnvironmentConfig \<Rightarrow> EnvironmentConfig" where
  "apply_update (SetProduction b) c = c\<lparr>production := b\<rparr>"
| "apply_update (SetApiServerUrl s) c = c\<lparr>apiServerUrl := s\<rparr>"
| "apply_update (SetAuth0 a) c = c\<lparr>auth0 := a\<rparr>"
| "apply_update (SetAuth0Url s) c = c\<lparr>auth0 := (auth0 c)\<lparr>url := s\<rparr>\<rparr>"
| "apply_update (SetAudience s) c = c\<lparr>auth0 := (auth0 c)\<lparr>audience := s\<rparr>\<rparr>"
| "apply_update (SetClientId s) c = c\<lparr>auth0 := (auth0 c)\<lparr>clientId := s\<rparr>\<rparr>"
| "apply_update (SetCallbackURL s) c = c\<lparr>auth0 := (auth0 c)\<lparr>callbackURL := s\<rparr>\<rparr>"

text \<open>
  One operation: its outcome and the state after it. A property assignment through a
  reference that holds no object raises a TypeError, as a property access on
  \<^verbatim>\<open>undefined\<close> does.
\<close>

fun step :: "operation \<Rightarrow> runtime \<Rightarrow> outcome \<times> runtime" where
  "step Get s = (Value (binding s), s)"
| "step (Assign u) s =
     (case heap s (binding s) of
        None \<Rightarrow> (Failed TypeError, s)
      | Some c \<Rightarrow> (Done, s\<lparr>heap := (heap s)(binding s \<mapsto> apply_update u c)\<rparr>))"
| "step (Rebind r) s = (Failed TypeError, s)"

text \<open>A process: the outcomes of its operations in order, and the final state.\<close>

fun run :: "operation list \<Rightarrow> runtime \<Rightarrow> outcome list \<times> runtime" where
  "run [] s = ([], s)"
| "run (x # xs) s =
     (let (r, s') = step x s; (rs, s'') = run xs s' in (r # rs, s''))"

text \<open>\<open>get()\<close>: the reference read from the binding; \<open>deref\<close>: the object behind it.\<close>

definition get :: "runtime \<Rightarrow> outcome" where
  "get s = fst (step Get s)"

fun deref :: "runtime \<Rightarrow> outcome \<Rightarrow> EnvironmentConfig option" where
  "deref s (Value r) = heap s r"
| "deref s Done = None"
| "deref s (Failed e) = None"

definition config :: "runtime \<Rightarrow> EnvironmentConfig option" where
  "config s = deref s (get s)"

text \<open>
  Whether an operation is a read of the binding or an attempt to rebind it. These are the
  operations of the model that are not property assignments; other ways of changing an
  object (deleting a property, redefining it) are not among the operations modelled.
\<close>

definition read_or_rebind :: "operation \<Rightarrow> bool" where
  "read_or_rebind x = (case x of Get \<Rightarrow> True | Rebind r \<Rightarrow> True | Assign u \<Rightarrow> False)"

subsection \<open>Absolute URLs\<close>

text \<open>
  The vocabulary of the URL properties: an absolute URL is a scheme (a letter, then
  letters, digits, \<open>+\<close>, \<open>-\<close>, \<open>.\<close>), the separator \<open>://\<close>, a non-empty host of
  letters, digits, \<open>-\<close> and \<open>.\<close>, an optional \<open>:\<close> with a decimal port, and
  whatever follows from the first \<open>/\<close>, \<open>?\<close> or \<open>#\<close> on.
\<close>

definition alpha :: "char \<Rightarrow> bool" where
  "alpha c = (c \<in> set ''abcdefghijklmnopqrstuvwxyzABCDEFGHIJKLMNOPQRSTUVWXYZ'')"

definition digit :: "char \<Rightarrow> bool" where
  "digit c = (c \<in> set ''0123456789'')"

definition scheme_char :: "char \<Rightarrow> bool" where
  "scheme_char c = (alpha c \<or> digit c \<or> c \<in> set ''+-.'')"

definition host_char :: "char \<Rightarrow> bool" where
  "host_char c = (alpha c \<or> digit c \<or> c \<in> set ''-.'')"

record url_parts =
  scheme :: string
  host :: string
  port :: "string option"
  rest :: string

definition parse_authority :: "string \<Rightarrow> (string \<times> string option) option" where
  "parse_authority a =
     (let h = takeWhile (\<lambda>c. c \<noteq> CHR '':'') a; p = drop (length h) a in
      if h \<noteq> [] \<and> list_all host_char h then
        (if p = [] then Some (h, None)
         else if tl p \<noteq> [] \<and> list_all digit (tl p) then Some (h, Some (tl p))
         else None)
      else None)"

definition parse_url :: "string \<Rightarrow> url_parts option" where
  "parse_url s =
     (let sch = takeWhile scheme_char s; after = drop (length sch) s in
      if sch \<noteq> [] \<and> alpha (hd sch) \<and> take 3 after = ''://'' then
        (let a = takeWhile (\<lambda>c. c \<notin> set ''/?#'') (drop 3 after);
             r = drop (length a) (drop 3 after)
         in case parse_authority a of
              None \<Rightarrow> None
            | Some (h, p) \<Rightarrow> Some \<lparr> scheme = sch, host = h, port = p, rest = r \<rparr>)
      else None)"

definition is_absolute_url :: "string \<Rightarrow> bool" where
  "is_absolute_url s = (parse_url s \<noteq> None)"

text \<open>A host of the machine itself: the name \<open>localhost\<close> or an address in 127.0.0.0/8.\<close>

definition local_host :: "string \<Rightarrow> bool" where
  "local_host h = (h = ''localhost'' \<or> take 4 h = ''127.'')"

section \<open>Properties of the run-time model\<close>

lemma step_binding: "binding (snd (step x s)) = binding s"
  by (cases x) (simp_all split: option.splits)

lemma run_binding: "binding (snd (run xs s)) = binding s"
proof (induction xs arbitrary: s)
  case Nil
  show ?case by simp
next
  case (Cons x xs)
  have "binding (snd (run (x # xs) s)) = binding (snd (run xs (snd (step x s))))"
    by (simp add: case_prod_beta)
  also have "\<dots> = binding (snd (step x s))" by (rule Cons.IH)
  also have "\<dots> = binding s" by (rule step_binding)
  finally show ?case .
qed

lemma step_object:
  "heap s (binding s) \<noteq> None \<Longrightarrow> heap (snd (step x s)) (binding (snd (step x s))) \<noteq> None"
  by (cases x) (auto split: option.splits)

lemma run_object:
  "heap s (binding s) \<noteq> None \<Longrightarrow> heap (snd (run xs s)) (binding (snd (run xs s))) \<noteq> None"
proof (induction xs arbitrary: s)
  case Nil
  then show ?case by simp
next
  case (Cons x xs)
  from Cons.prems have "heap (snd (step x s)) (binding (snd (step x s))) \<noteq> None"
    by (rule step_object)
  then have "heap (snd (run xs (snd (step x s)))) (binding (snd (run xs (snd (step x s))))) \<noteq> None"
    by (rule Cons.IH)
  then show ?case by (simp add: case_prod_beta)
qed

lemma step_read_or_rebind: "read_or_rebind x \<Longrightarrow> snd (step x s) = s"
  by (cases x) (simp_all add: read_or_rebind_def)

lemma run_read_or_rebind: "list_all read_or_rebind xs \<Longrightarrow> snd (run xs s) = s"
  by (induction xs arbitrary: s) (simp_all add: case_prod_beta step_read_or_rebind)

lemma config_load: "config (load c) = Some c"
  by (simp add: config_def get_def load_def)

lemmas url_defs =
  parse_url_def parse_authority_def alpha_def digit_def scheme_char_def host_char_def Let_def

section \<open>Reading the configuration\<close>

text \<open>
  C1, as stated: every call to \<open>get()\<close> within a process lifetime returns the same
  \<open>EnvironmentConfig\<close> value. The source does not give this for every process: the
  object is writable, and after \<^verbatim>\<open>environment.apiServerUrl = 'http://10.0.0.1'\<close> a
  call returns a record whose API server URL differs from the one the call before it
  returned.
\<close>

theorem get_same_value_counterexample:
  "map_option apiServerUrl (config load_module) = Some ''http://127.0.0.1:5000''
   \<and> map_option apiServerUrl
        (config (snd (run [Get, Assign (SetApiServerUrl ''http://10.0.0.1''), Get] load_module)))
       = Some ''http://10.0.0.1''
   \<and> config (snd (run [Get, Assign (SetApiServerUrl ''http://10.0.0.1''), Get] load_module))
       \<noteq> config load_module"
  by (simp add: config_def get_def load_module_def load_def environment_def)

text \<open>
  C1, amended: as long as the operations between two calls of \<open>get()\<close> are reads or
  attempts to rebind the constant, both calls return the same \<open>EnvironmentConfig\<close>
  value; on the module of the source that value is the literal \<open>environment\<close>. The
  object that \<open>get()\<close> returns is the same after every process, the binding being
  \<^verbatim>\<open>const\<close>.
\<close>

theorem get_same_value:
  "list_all read_or_rebind xs \<Longrightarrow>
     config (snd (run xs s)) = config s
     \<and> config (snd (run xs load_module)) = Some environment
     \<and> get (snd (run ys s)) = get s"
  by (simp add: run_read_or_rebind load_module_def config_load get_def run_binding)

theorem get_same_value_witness:
  "list_all read_or_rebind [Get, Get]
   \<and> config (snd (run [Get, Get] load_module)) = config load_module
   \<and> config (snd (run [Get, Get] load_module)) = Some environment
   \<and> get (snd (run [Assign (SetProduction True)] load_module)) = get load_module"
  using get_same_value [of "[Get, Get]" load_module "[Assign (SetProduction True)]"]
  by (simp add: read_or_rebind_def)

text \<open>
  C2. In the development variant, the one the source supplies, the API base URL read
  through \<open>get()\<close> is exactly \<open>http://127.0.0.1:5000\<close> and the client identifier of
  the identity provider is exactly \<open>334zMeab2pYsTnt0cl8HImUCh0Zln5JX\<close>.
\<close>

theorem development_values:
  "map_option apiServerUrl (config load_module) = Some ''http://127.0.0.1:5000''
   \<and> map_option (clientId \<circ> auth0) (config load_module) = Some ''334zMeab2pYsTnt0cl8HImUCh0Zln5JX''"
  by (simp add: config_def get_def load_module_def load_def environment_def)

text \<open>
  C3, as stated: the object is immutable after construction, no sequence of operations
  of any component ever mutates one of its fields. The source does not give this: the
  properties of the literal are writable, and the one-operation process
  \<^verbatim>\<open>environment.production = true\<close> turns the flag of the constructed object from
  false to true.
\<close>

theorem immutable_counterexample:
  "map_option production (config load_module) = Some False
   \<and> map_option production (config (snd (run [Assign (SetProduction True)] load_module))) = Some True"
  by (simp add: config_def get_def load_module_def load_def environment_def)

text \<open>
  C3, amended: reading the configuration never mutates it, and neither does an attempt
  to rebind the constant: a process that consists of reads and rebind attempts leaves the
  binding and every field of the constructed object unchanged. The binding itself keeps
  its reference under every process.
\<close>

theorem reads_never_mutate:
  "list_all read_or_rebind xs \<Longrightarrow>
     snd (run xs s) = s \<and> binding (snd (run ys s)) = binding s"
  by (simp add: run_read_or_rebind run_binding)

theorem reads_never_mutate_witness:
  "list_all read_or_rebind [Get, Rebind 1, Get]
   \<and> snd (run [Get, Rebind 1, Get] load_module) = load_module
   \<and> binding (snd (run [Assign (SetClientId ''x''), Rebind 1] load_module)) = binding load_module"
  using reads_never_mutate [of "[Get, Rebind 1, Get]" load_module "[Assign (SetClientId ''x''), Rebind 1]"]
  by (simp add: read_or_rebind_def)

text \<open>
  C4. \<open>get()\<close> always succeeds: it performs no validation and no I/O and never raises
  or returns an error. Whatever literal \<open>c\<close> the module was built with, valid or not,
  loading yields that literal; after any process on it, \<open>get()\<close> returns the reference of
  the binding, never a failure, and the reference holds an object; and in any state a
  read leaves the state as it was.
\<close>

theorem get_never_fails:
  "config (load c) = Some c
   \<and> get (snd (run xs (load c))) = Value (binding (load c))
   \<and> config (snd (run xs (load c))) \<noteq> None
   \<and> step Get s = (Value (binding s), s)"
proof -
  have "heap (load c) (binding (load c)) \<noteq> None"
    by (simp add: load_def)
  then have "heap (snd (run xs (load c))) (binding (snd (run xs (load c)))) \<noteq> None"
    by (rule run_object)
  then have "config (snd (run xs (load c))) \<noteq> None"
    by (simp add: config_def get_def)
  moreover have "get (snd (run xs (load c))) = Value (binding (load c))"
    by (simp add: get_def run_binding)
  ultimately show ?thesis
    by (simp add: config_load)
qed

section \<open>The values of the supplied configuration\<close>

text \<open>
  C5. Every string field of the supplied configuration (the API server URL and the four
  fields of the identity provider) is a non-empty string.
\<close>

theorem string_fields_nonempty:
  "apiServerUrl environment \<noteq> []
   \<and> url (auth0 environment) \<noteq> []
   \<and> audience (auth0 environment) \<noteq> []
   \<and> clientId (auth0 environment) \<noteq> []
   \<and> callbackURL (auth0 environment) \<noteq> []
   \<and> list_all (\<lambda>v. v \<noteq> []) (map snd (string_fields environment))"
  by (simp add: string_fields_def environment_def)

text \<open>
  C6. The API server URL and the callback URL of the supplied configuration parse as
  well-formed absolute URLs, a scheme followed by a host.
\<close>

theorem urls_absolute:
  "is_absolute_url (apiServerUrl environment)
   \<and> is_absolute_url (callbackURL (auth0 environment))"
  by (simp add: is_absolute_url_def url_defs environment_def)

text \<open>
  C10. The API server URL and the callback URL use the unencrypted scheme \<open>http\<close> with
  hosts of the machine itself, \<open>http://127.0.0.1:5000\<close> and \<open>http://localhost:8100\<close>;
  the audience is the \<open>https\<close> URL \<open>https://csfsauth\<close>, whose host is the bare
  identifier \<open>csfsauth\<close>: one label, no port and nothing after it.
\<close>

theorem url_schemes_and_hosts:
  "apiServerUrl environment = ''http://127.0.0.1:5000''
   \<and> parse_url (apiServerUrl environment) =
       Some \<lparr> scheme = ''http'', host = ''127.0.0.1'', port = Some ''5000'', rest = [] \<rparr>
   \<and> map_option (local_host \<circ> host) (parse_url (apiServerUrl environment)) = Some True
   \<and> callbackURL (auth0 environment) = ''http://localhost:8100''
   \<and> parse_url (callbackURL (auth0 environment)) =
       Some \<lparr> scheme = ''http'', host = ''localhost'', port = Some ''8100'', rest = [] \<rparr>
   \<and> map_option (local_host \<circ> host) (parse_url (callbackURL (auth0 environment))) = Some True
   \<and> audience (auth0 environment) = ''https://csfsauth''
   \<and> parse_url (audience (auth0 environment)) =
       Some \<lparr> scheme = ''https'', host = ''csfsauth'', port = None, rest = [] \<rparr>
   \<and> map_option (\<lambda>u. CHR ''.'' \<in> set (host u)) (parse_url (audience (auth0 environment))) = Some False"
  by (simp add: local_host_def url_defs environment_def)

section \<open>Deployment variants\<close>

text \<open>
  C7, as stated: among the deployment variants that the artifact defines, the production
  flag is true in exactly one. The artifact defines one variant, and its flag is false:
  the number of variants with a true flag is not one.
\<close>

theorem production_variant_counterexample:
  "length (filter production variants) \<noteq> 1"
  by (simp add: variants_def module_exports_def environment_def)

text \<open>
  C7, amended: the artifact defines a single deployment variant, the exported
  \<open>environment\<close>, and the production flag is false in it; it defines no variant in
  which the flag is true.
\<close>

theorem production_flags:
  "map production variants = [False] \<and> length (filter production variants) = 0"
  by (simp add: variants_def module_exports_def environment_def)




text \<open>
  C9. The artifact defines exactly one configuration variant and exports it
  unconditionally: the module has the single export \<open>environment\<close>, its production
  flag is false, every other field is a fixed string literal, no exported variant has a
  true production flag, and loading the module yields that record without any selection.
\<close>

theorem single_unconditional_variant:
  "map fst module_exports = [''environment'']
   \<and> variants = [environment]
   \<and> production environment = False
   \<and> filter production variants = []
   \<and> string_fields environment =
       [(''apiServerUrl'', ''http://127.0.0.1:5000''),
        (''auth0.url'', ''mikilade.us''),
        (''auth0.audience'', ''https://csfsauth''),
        (''auth0.clientId'', ''334zMeab2pYsTnt0cl8HImUCh0Zln5JX''),
        (''auth0.callbackURL'', ''http://localhost:8100'')]
   \<and> config load_module = Some environment"
  by (simp add: variants_def module_exports_def string_fields_def load_module_def config_load)
     (simp add: environment_def)

end
